theory Spec2Isabelle
  imports Main
begin

section \<open>Product catalogue (src/lib/products.ts)\<close>

text \<open>
  The interface \<^verbatim>\<open>Product\<close> has the fields \<^verbatim>\<open>id\<close>, \<^verbatim>\<open>name\<close>, \<^verbatim>\<open>price\<close> and
  \<^verbatim>\<open>points\<close>; the fields carry the prefix \<open>p_\<close> here because \<open>id\<close> is the identity
  function of HOL.
\<close>

record Product =
  p_id :: string
  p_name :: string
  p_price :: int
  p_points :: int

definition products :: "Product list" where
  "products =
     [\<lparr>p_id = ''prod_20euro'', p_name = ''Product 20 Euro'', p_price = 20, p_points = 10\<rparr>,
      \<lparr>p_id = ''prod_35euro'', p_name = ''Product 35 Euro'', p_price = 35, p_points = 20\<rparr>,
      \<lparr>p_id = ''prod_50euro'', p_name = ''Product 50 Euro'', p_price = 50, p_points = 30\<rparr>]"

definition getProductById :: "string \<Rightarrow> Product option" where
  "getProductById i = find (\<lambda>p. p_id p = i) products"

section \<open>JavaScript values\<close>

text \<open>
  A value that may be \<^verbatim>\<open>undefined\<close> or \<^verbatim>\<open>null\<close> is an \<open>option\<close>. For strings the
  operators \<^verbatim>\<open>!x\<close> (\<open>falsy\<close>) and \<^verbatim>\<open>x || y\<close> treat the empty string like a missing value.
\<close>

definition truthy :: "string option \<Rightarrow> bool" where
  "truthy v = (case v of None \<Rightarrow> False | Some s \<Rightarrow> s \<noteq> [])"

definition falsy :: "string option \<Rightarrow> bool" where
  "falsy v = (case v of None \<Rightarrow> True | Some s \<Rightarrow> s = [])"

text \<open>\<^verbatim>\<open>a !== b\<close>\<close>

definition strictNotEqual :: "string option \<Rightarrow> string option \<Rightarrow> bool" where
  "strictNotEqual a b = (a \<noteq> b)"

definition js_or :: "string option \<Rightarrow> string option \<Rightarrow> string option" where
  "js_or a b = (if truthy a then a else b)"

definition or_default :: "string option \<Rightarrow> string \<Rightarrow> string" where
  "or_default a d = (case a of None \<Rightarrow> d | Some s \<Rightarrow> if s = [] then d else s)"

datatype js_number = Num int | NaN

text \<open>
  \<^verbatim>\<open>parseInt(s, 10)\<close>: leading white space is skipped, one sign is read, then the longest
  run of decimal digits; no digit gives \<^verbatim>\<open>NaN\<close>. Strings are ASCII here, so the white
  space is TAB, LF, VT, FF, CR and SPACE. A value too large for a double is rounded by
  JavaScript; every such value is outside the range of an INTEGER column and is refused
  by the store below just as the exact value is.
\<close>

definition isWhiteSpace :: "char \<Rightarrow> bool" where
  "isWhiteSpace c = (of_char c = (32::nat) \<or> (9 \<le> (of_char c :: nat) \<and> (of_char c :: nat) \<le> 13))"

definition isDigit :: "char \<Rightarrow> bool" where
  "isDigit c = (48 \<le> (of_char c :: nat) \<and> (of_char c :: nat) \<le> 57)"

definition digitValue :: "char \<Rightarrow> int" where
  "digitValue c = int (of_char c) - 48"

definition parseInt :: "string \<Rightarrow> js_number" where
  "parseInt str =
     (let s = dropWhile isWhiteSpace str;
          neg = (case s of [] \<Rightarrow> False | c # _ \<Rightarrow> c = CHR ''-'');
          s' = (case s of [] \<Rightarrow> [] | c # r \<Rightarrow> if c = CHR ''-'' \<or> c = CHR ''+'' then r else s);
          ds = takeWhile isDigit s'
      in if ds = [] then NaN
         else Num ((if neg then - 1 else 1) * foldl (\<lambda>a c. 10 * a + digitValue c) 0 ds))"

text \<open>\<^verbatim>\<open>Number.prototype.toString()\<close> on an integer: its decimal digits.\<close>

fun digits :: "nat \<Rightarrow> string" where
  "digits n = (if n < 10 then [char_of (48 + n)] else digits (n div 10) @ [char_of (48 + n mod 10)])"

declare digits.simps [simp del]

definition toString :: "int \<Rightarrow> string" where
  "toString i = (if i < 0 then CHR ''-'' # digits (nat (- i)) else digits (nat i))"

text \<open>
  A JSON value, as \<^verbatim>\<open>JSON.stringify\<close> writes it and as a JSONB column keeps it.
  A property whose value is \<^verbatim>\<open>undefined\<close> is left out of the object.
\<close>

datatype json = JNull | JBool bool | JNumber int | JString string | JObject "(string \<times> json) list"

definition optField :: "string \<Rightarrow> string option \<Rightarrow> (string \<times> json) list" where
  "optField k v = (case v of None \<Rightarrow> [] | Some s \<Rightarrow> [(k, JString s)])"

definition nullable :: "string option \<Rightarrow> json" where
  "nullable v = (case v of None \<Rightarrow> JNull | Some s \<Rightarrow> JString s)"

section \<open>The database (initializeDbSchema, sql)\<close>

text \<open>
  \<^verbatim>\<open>purchase_events\<close>: \<^verbatim>\<open>id SERIAL PRIMARY KEY\<close>, \<^verbatim>\<open>timestamp TIMESTAMPTZ DEFAULT
  CURRENT_TIMESTAMP\<close>, \<^verbatim>\<open>email VARCHAR(255) NOT NULL\<close>, \<^verbatim>\<open>product_id VARCHAR(100)\<close>,
  \<^verbatim>\<open>stripe_session_id VARCHAR(255) UNIQUE\<close>, \<^verbatim>\<open>status VARCHAR(50) NOT NULL\<close>,
  \<^verbatim>\<open>seller_id INTEGER NOT NULL DEFAULT 0\<close>, \<^verbatim>\<open>points_awarded INTEGER\<close>,
  \<^verbatim>\<open>details JSONB\<close>. A nullable column is an \<open>option\<close>. Every statement of the
  repository that writes the table supplies a string for \<^verbatim>\<open>stripe_session_id\<close>.

  \<^verbatim>\<open>user_points\<close>: \<^verbatim>\<open>email VARCHAR(255) PRIMARY KEY\<close>, \<^verbatim>\<open>total_points INTEGER
  DEFAULT 0 NOT NULL\<close>, \<^verbatim>\<open>last_updated TIMESTAMPTZ\<close>.
\<close>

record purchase_events_row =
  pe_id :: nat
  pe_timestamp :: nat
  pe_email :: string
  pe_product_id :: "string option"
  pe_stripe_session_id :: string
  pe_status :: string
  pe_seller_id :: int
  pe_points_awarded :: "int option"
  pe_details :: "json option"

record user_points_row =
  up_email :: string
  up_total_points :: int
  up_last_updated :: nat

record db =
  purchase_events :: "purchase_events_row list"
  user_points :: "user_points_row list"

text \<open>
  What one request gets from outside the handler: the clock (\<^verbatim>\<open>CURRENT_TIMESTAMP\<close>,
  \<^verbatim>\<open>NOW()\<close>), the value the \<^verbatim>\<open>id\<close> sequence hands out, and for each of the two
  statements a request can issue whether \<^verbatim>\<open>sql\<close> throws for a reason that is not
  modelled here (no connection, a value longer than its VARCHAR column), with the
  message of the error.
\<close>

record io =
  now :: nat
  nextval :: nat
  ledger_fault :: "string option"
  balance_fault :: "string option"

definition out_of_int4 :: "int \<Rightarrow> bool" where
  "out_of_int4 n = (n < - 2147483648 \<or> 2147483647 < n)"

section \<open>The webhook (src/app/api/webhooks/stripe/route.ts)\<close>

text \<open>
  The argument of \<^verbatim>\<open>recordPurchaseEvent\<close>. An optional property that the caller leaves
  out is \<^verbatim>\<open>undefined\<close>, which the driver sends to the server as NULL.
\<close>

record PurchaseEventData =
  email :: string
  productId :: "string option"
  seller_id :: "js_number option"
  stripeSessionId :: string
  status :: string
  pointsAwarded :: "int option"
  details :: "json option"

text \<open>
  The statement of \<^verbatim>\<open>recordPurchaseEvent\<close>:
  \<^verbatim>\<open>INSERT INTO purchase_events (email, product_id, seller_id, stripe_session_id, status,
  points_awarded, details) VALUES ($1 .. $7) ON CONFLICT (stripe_session_id) DO UPDATE SET
  status, details, product_id, seller_id, points_awarded = EXCLUDED. ...\<close>
  The proposed row is checked first: \<^verbatim>\<open>seller_id\<close> is written explicitly, so the
  column default does not apply and NULL violates NOT NULL; \<^verbatim>\<open>NaN\<close> is not an
  integer; both integer columns are 32 bits wide. Then the row is inserted, or the
  row with the same \<^verbatim>\<open>stripe_session_id\<close> has the five listed columns replaced.
  \<open>Inl\<close> carries the message of the error \<^verbatim>\<open>sql\<close> throws.
\<close>

definition excluded_update :: "PurchaseEventData \<Rightarrow> int \<Rightarrow> purchase_events_row \<Rightarrow> purchase_events_row" where
  "excluded_update d sid r =
     r\<lparr>pe_status := status d, pe_details := details d, pe_product_id := productId d,
       pe_seller_id := sid, pe_points_awarded := pointsAwarded d\<rparr>"

definition inserted_row :: "io \<Rightarrow> PurchaseEventData \<Rightarrow> int \<Rightarrow> purchase_events_row" where
  "inserted_row e d sid =
     \<lparr>pe_id = nextval e, pe_timestamp = now e, pe_email = email d, pe_product_id = productId d,
      pe_stripe_session_id = stripeSessionId d, pe_status = status d, pe_seller_id = sid,
      pe_points_awarded = pointsAwarded d, pe_details = details d\<rparr>"

definition on_conflict_update ::
  "PurchaseEventData \<Rightarrow> int \<Rightarrow> purchase_events_row list \<Rightarrow> purchase_events_row list" where
  "on_conflict_update d sid rows =
     map (\<lambda>r. if pe_stripe_session_id r = stripeSessionId d then excluded_update d sid r else r) rows"

definition points_out_of_range :: "int option \<Rightarrow> bool" where
  "points_out_of_range p = (case p of None \<Rightarrow> False | Some n \<Rightarrow> out_of_int4 n)"

definition upsert_purchase_event ::
  "io \<Rightarrow> PurchaseEventData \<Rightarrow> purchase_events_row list \<Rightarrow> string + purchase_events_row list" where
  "upsert_purchase_event e d rows =
     (case ledger_fault e of
        Some msg \<Rightarrow> Inl msg
      | None \<Rightarrow>
          (case seller_id d of
             None \<Rightarrow> Inl ''null value in column seller_id violates not-null constraint''
           | Some NaN \<Rightarrow> Inl ''invalid input syntax for type integer: NaN''
           | Some (Num sid) \<Rightarrow>
               if out_of_int4 sid \<or> points_out_of_range (pointsAwarded d)
               then Inl ''value out of range for type integer''
               else if list_ex (\<lambda>r. pe_stripe_session_id r = stripeSessionId d) rows
               then Inr (on_conflict_update d sid rows)
               else Inr (rows @ [inserted_row e d sid])))"

text \<open>The \<^verbatim>\<open>catch\<close> of \<^verbatim>\<open>recordPurchaseEvent\<close> logs the error and returns normally.\<close>

definition recordPurchaseEvent :: "io \<Rightarrow> PurchaseEventData \<Rightarrow> db \<Rightarrow> db" where
  "recordPurchaseEvent e d s =
     (case upsert_purchase_event e d (purchase_events s) of
        Inl dbError \<Rightarrow> s
      | Inr rows \<Rightarrow> s\<lparr>purchase_events := rows\<rparr>)"

text \<open>
  The statement of \<^verbatim>\<open>updateUserPoints\<close>:
  \<^verbatim>\<open>INSERT INTO user_points (email, total_points, last_updated) VALUES ($1, $2,
  CURRENT_TIMESTAMP) ON CONFLICT (email) DO UPDATE SET total_points =
  user_points.total_points + $2, last_updated = CURRENT_TIMESTAMP\<close>.
  The sum is a 32-bit integer: out of range is an error of the server.
\<close>

definition add_points :: "string \<Rightarrow> int \<Rightarrow> nat \<Rightarrow> user_points_row list \<Rightarrow> user_points_row list" where
  "add_points em pointsToAdd t rows =
     map (\<lambda>r. if up_email r = em
                then r\<lparr>up_total_points := up_total_points r + pointsToAdd, up_last_updated := t\<rparr>
                else r) rows"

definition upsert_user_points ::
  "io \<Rightarrow> string \<Rightarrow> int \<Rightarrow> user_points_row list \<Rightarrow> string + user_points_row list" where
  "upsert_user_points e em pointsToAdd rows =
     (case balance_fault e of
        Some msg \<Rightarrow> Inl msg
      | None \<Rightarrow>
          if out_of_int4 pointsToAdd then Inl ''value out of range for type integer''
          else (case find (\<lambda>r. up_email r = em) rows of
                  None \<Rightarrow> Inr (rows @ [\<lparr>up_email = em, up_total_points = pointsToAdd,
                                         up_last_updated = now e\<rparr>])
                | Some old \<Rightarrow>
                    if out_of_int4 (up_total_points old + pointsToAdd)
                    then Inl ''integer out of range''
                    else Inr (add_points em pointsToAdd (now e) rows)))"

text \<open>
  The \<^verbatim>\<open>catch\<close> of \<^verbatim>\<open>updateUserPoints\<close> logs the error and returns normally. The
  third parameter is used in the log lines only.
\<close>

definition updateUserPoints :: "io \<Rightarrow> string \<Rightarrow> int \<Rightarrow> string \<Rightarrow> db \<Rightarrow> db" where
  "updateUserPoints e em pointsToAdd sessionId s =
     (case upsert_user_points e em pointsToAdd (user_points s) of
        Inl dbError \<Rightarrow> s
      | Inr rows \<Rightarrow> s\<lparr>user_points := rows\<rparr>)"

text \<open>
  The notifications of the payment provider, as far as the handler reads them.
  \<^verbatim>\<open>Stripe.Checkout.Session\<close>: \<^verbatim>\<open>id\<close>, \<^verbatim>\<open>metadata\<close> (an object of strings, or null),
  \<^verbatim>\<open>customer_details?.email\<close>, \<^verbatim>\<open>payment_intent\<close>.
  \<^verbatim>\<open>Stripe.PaymentIntent\<close>: \<^verbatim>\<open>id\<close>, \<^verbatim>\<open>receipt_email\<close>, \<^verbatim>\<open>customer\<close> (an id, an
  expanded customer with its \<^verbatim>\<open>email\<close>, a deleted customer without one, or null),
  \<^verbatim>\<open>last_payment_error?.message\<close>, the id of \<^verbatim>\<open>latest_charge\<close>, \<^verbatim>\<open>status\<close>,
  \<^verbatim>\<open>amount\<close>, \<^verbatim>\<open>currency\<close>.
\<close>

record CheckoutSession =
  cs_id :: string
  cs_metadata :: "(string \<times> string) list option"
  cs_customer_details_email :: "string option"
  cs_payment_intent :: "string option"

datatype Customer = CustomerId string | CustomerObject "string option" | DeletedCustomer

record PaymentIntent =
  pi_id :: string
  pi_receipt_email :: "string option"
  pi_customer :: "Customer option"
  pi_last_payment_error_message :: "string option"
  pi_latest_charge_id :: "string option"
  pi_status :: string
  pi_amount :: int
  pi_currency :: string

datatype StripeEvent =
    CheckoutSessionCompleted CheckoutSession
  | PaymentIntentPaymentFailed PaymentIntent
  | OtherEvent string

record Response =
  http_status :: nat
  body :: json

text \<open>\<^verbatim>\<open>NextResponse.json(obj)\<close> answers 200 unless a status is given.\<close>

definition respond :: "nat \<Rightarrow> (string \<times> json) list \<Rightarrow> Response" where
  "respond st obj = \<lparr>http_status = st, body = JObject obj\<rparr>"

text \<open>\<^verbatim>\<open>session.metadata?.key\<close>\<close>

definition metadata_get :: "CheckoutSession \<Rightarrow> string \<Rightarrow> string option" where
  "metadata_get session k = (case cs_metadata session of None \<Rightarrow> None | Some m \<Rightarrow> map_of m k)"

definition emailForFailedPI :: "PaymentIntent \<Rightarrow> string" where
  "emailForFailedPI pi =
     (if truthy (pi_receipt_email pi) then or_default (pi_receipt_email pi) ''unknown@example.com''
      else (case pi_customer pi of
              Some (CustomerId c) \<Rightarrow> ''unknown@example.com''
            | Some (CustomerObject em) \<Rightarrow> or_default em ''unknown@example.com''
            | Some DeletedCustomer \<Rightarrow> ''unknown@example.com''
            | None \<Rightarrow> ''unknown@example.com''))"

definition missingMetadataData :: "CheckoutSession \<Rightarrow> PurchaseEventData" where
  "missingMetadataData session =
     \<lparr>email = or_default (js_or (metadata_get session ''email'') (cs_customer_details_email session))
                ''unknown@example.com'',
      productId = metadata_get session ''productId'',
      seller_id = Some (parseInt (or_default (metadata_get session ''sellerId'') ''0'')),
      stripeSessionId = cs_id session,
      status = ''ERROR_MISSING_METADATA'',
      pointsAwarded = None,
      details = Some (JObject [(''error'', JString ''Email or productId not found in session metadata'')])\<rparr>"

definition productNotFoundData :: "CheckoutSession \<Rightarrow> string \<Rightarrow> string \<Rightarrow> PurchaseEventData" where
  "productNotFoundData session em pid =
     \<lparr>email = em,
      productId = Some pid,
      seller_id = Some (parseInt (or_default (metadata_get session ''sellerId'') ''0'')),
      stripeSessionId = cs_id session,
      status = ''ERROR_PRODUCT_NOT_FOUND'',
      pointsAwarded = None,
      details = Some (JObject [(''error'', JString (''Product ID '' @ pid @ '' not found.''))])\<rparr>"

definition paymentSuccessData :: "CheckoutSession \<Rightarrow> string \<Rightarrow> string \<Rightarrow> Product \<Rightarrow> PurchaseEventData" where
  "paymentSuccessData session em pid product =
     \<lparr>email = em,
      productId = Some pid,
      seller_id = Some (parseInt (or_default (metadata_get session ''sellerId'') ''0'')),
      stripeSessionId = cs_id session,
      status = ''PAYMENT_SUCCESS'',
      pointsAwarded = Some (p_points product),
      details = Some (JObject [(''product_name'', JString (p_name product)),
                               (''price_paid'', JNumber (p_price product)),
                               (''payment_intent'', nullable (cs_payment_intent session))])\<rparr>"

definition paymentFailedData :: "PaymentIntent \<Rightarrow> PurchaseEventData" where
  "paymentFailedData pi =
     \<lparr>email = emailForFailedPI pi,
      productId = None,
      seller_id = None,
      stripeSessionId = pi_id pi,
      status = ''PAYMENT_FAILED'',
      pointsAwarded = None,
      details = Some (JObject (optField ''reason'' (pi_last_payment_error_message pi)
                               @ [(''payment_intent_id'', JString (pi_id pi))]
                               @ optField ''latest_charge_id'' (pi_latest_charge_id pi)
                               @ [(''status'', JString (pi_status pi)),
                                  (''amount'', JNumber (pi_amount pi)),
                                  (''currency'', JString (pi_currency pi))]))\<rparr>"

text \<open>
  The \<^verbatim>\<open>switch\<close> on \<^verbatim>\<open>event.type\<close>. Every statement of it that can throw is
  inside the \<^verbatim>\<open>try\<close> of one of the two helpers, so the \<^verbatim>\<open>catch\<close> around the switch
  (the answer 500 "Webhook processing error") has no way in and no branch here.
\<close>

definition checkoutSessionCompleted :: "io \<Rightarrow> CheckoutSession \<Rightarrow> db \<Rightarrow> Response \<times> db" where
  "checkoutSessionCompleted e session s =
     (let em = js_or (metadata_get session ''email'') (cs_customer_details_email session);
          pid = metadata_get session ''productId''
      in if falsy em \<or> falsy pid
         then (respond 200 [(''received'', JBool True),
                            (''error'', JString ''Email or productId missing in session data'')],
               recordPurchaseEvent e (missingMetadataData session) s)
         else (case getProductById (or_default pid []) of
                 None \<Rightarrow>
                   (respond 200 [(''received'', JBool True),
                                 (''error'', JString (''Product ID '' @ or_default pid [] @ '' not found.''))],
                    recordPurchaseEvent e
                      (productNotFoundData session (or_default em []) (or_default pid [])) s)
               | Some product \<Rightarrow>
                   (let s1 = recordPurchaseEvent e
                               (paymentSuccessData session (or_default em []) (or_default pid []) product) s;
                        s2 = (if p_points product > 0
                              then updateUserPoints e (or_default em []) (p_points product) (cs_id session) s1
                              else s1)
                    in (respond 200 [(''received'', JBool True)], s2))))"

definition paymentIntentPaymentFailed :: "io \<Rightarrow> PaymentIntent \<Rightarrow> db \<Rightarrow> Response \<times> db" where
  "paymentIntentPaymentFailed e pi s =
     (respond 200 [(''received'', JBool True)], recordPurchaseEvent e (paymentFailedData pi) s)"

fun handleEvent :: "io \<Rightarrow> StripeEvent \<Rightarrow> db \<Rightarrow> Response \<times> db" where
  "handleEvent e (CheckoutSessionCompleted session) s = checkoutSessionCompleted e session s"
| "handleEvent e (PaymentIntentPaymentFailed pi) s = paymentIntentPaymentFailed e pi s"
| "handleEvent e (OtherEvent ty) s = (respond 200 [(''received'', JBool True)], s)"

text \<open>
  The request: the raw body and the header \<^verbatim>\<open>stripe-signature\<close>. The library call
  \<^verbatim>\<open>stripe.webhooks.constructEvent(buf, sig, webhookSecret)\<close> is a parameter: it gives
  the event, or \<open>Inl\<close> the message of the error it throws. \<^verbatim>\<open>webhookSecret\<close> is the
  environment variable \<^verbatim>\<open>STRIPE_WEBHOOK_SECRET\<close>, which may be unset or empty.
\<close>

record WebhookRequest =
  raw_body :: string
  stripe_signature :: "string option"

type_synonym Verifier = "string \<Rightarrow> string \<Rightarrow> string \<Rightarrow> string + StripeEvent"

definition POST :: "Verifier \<Rightarrow> string option \<Rightarrow> io \<Rightarrow> WebhookRequest \<Rightarrow> db \<Rightarrow> Response \<times> db" where
  "POST constructEvent webhookSecret e req s =
     (if falsy (stripe_signature req)
      then (respond 400 [(''error'', JString ''Missing stripe-signature header.'')], s)
      else if falsy webhookSecret
      then (respond 500 [(''error'', JString ''Webhook secret not configured.'')], s)
      else (case constructEvent (raw_body req) (or_default (stripe_signature req) [])
                                (or_default webhookSecret []) of
              Inl msg \<Rightarrow> (respond 400 [(''error'', JString (''Webhook Error: '' @ msg))], s)
            | Inr event \<Rightarrow> handleEvent e event s))"

text \<open>Notifications handled one after the other, each with its own clock and faults.\<close>

fun deliver :: "Verifier \<Rightarrow> string option \<Rightarrow> (io \<times> WebhookRequest) list \<Rightarrow> db \<Rightarrow> db" where
  "deliver v sec [] s = s"
| "deliver v sec ((e, req) # rest) s = deliver v sec rest (snd (POST v sec e req s))"

text \<open>The projections the properties speak of.\<close>

definition rows_of_session :: "db \<Rightarrow> string \<Rightarrow> purchase_events_row list" where
  "rows_of_session s k = filter (\<lambda>r. pe_stripe_session_id r = k) (purchase_events s)"

definition totalPoints :: "db \<Rightarrow> string \<Rightarrow> int" where
  "totalPoints s em = sum_list (map up_total_points (filter (\<lambda>r. up_email r = em) (user_points s)))"

definition awarded :: "purchase_events_row \<Rightarrow> int" where
  "awarded r = (case pe_points_awarded r of None \<Rightarrow> 0 | Some p \<Rightarrow> p)"

definition successPoints :: "db \<Rightarrow> string \<Rightarrow> int" where
  "successPoints s em =
     sum_list (map awarded (filter (\<lambda>r. pe_email r = em \<and> pe_status r = ''PAYMENT_SUCCESS'')
                                   (purchase_events s)))"

definition empty_db :: db where
  "empty_db = \<lparr>purchase_events = [], user_points = []\<rparr>"

section \<open>Logging a cancellation (src/app/api/log-cancellation/route.ts)\<close>

text \<open>
  The request: the header \<^verbatim>\<open>X-Admin-API-Secret\<close> and the JSON body, of which the
  handler reads \<^verbatim>\<open>email\<close>, \<^verbatim>\<open>productId\<close> and \<^verbatim>\<open>stripeSessionId\<close>, taken as
  strings; \<open>Inl\<close> is the message of the error \<^verbatim>\<open>req.json()\<close> throws on a body that
  is not JSON.
\<close>

record CancelBody =
  lc_email :: "string option"
  lc_productId :: "string option"
  lc_stripeSessionId :: "string option"

record CancelRequest =
  x_admin_api_secret :: "string option"
  cancel_json :: "string + CancelBody"

text \<open>
  \<^verbatim>\<open>INSERT INTO purchase_events (email, product_id, points_awarded, stripe_session_id,
  status, timestamp, details) VALUES ($1, $2, $3, $4, $5, NOW(), $6)\<close>: no ON CONFLICT
  clause, so a row with the same \<^verbatim>\<open>stripe_session_id\<close> makes the statement fail;
  \<^verbatim>\<open>seller_id\<close> is not written and takes its default 0. The text of
  \<^verbatim>\<open>new Date().toISOString()\<close> is kept as the value of the clock.
\<close>

definition cancellation_row :: "io \<Rightarrow> string \<Rightarrow> string \<Rightarrow> string \<Rightarrow> Product \<Rightarrow> purchase_events_row" where
  "cancellation_row e em pid sid product =
     \<lparr>pe_id = nextval e, pe_timestamp = now e, pe_email = em, pe_product_id = Some pid,
      pe_stripe_session_id = sid, pe_status = ''cancelled_by_user'', pe_seller_id = 0,
      pe_points_awarded = Some 0,
      pe_details = Some (JObject [(''product_name'', JString (p_name product)),
                                  (''price_paid'', JNumber (p_price product)),
                                  (''cancelled_at'', JNumber (int (now e))),
                                  (''reason'', JString ''User clicked cancel on Stripe page'')])\<rparr>"

definition insert_cancellation ::
  "io \<Rightarrow> purchase_events_row \<Rightarrow> purchase_events_row list \<Rightarrow> string + purchase_events_row list" where
  "insert_cancellation e row rows =
     (case ledger_fault e of
        Some msg \<Rightarrow> Inl msg
      | None \<Rightarrow>
          if list_ex (\<lambda>r. pe_stripe_session_id r = pe_stripe_session_id row) rows
          then Inl ''duplicate key value violates unique constraint''
          else Inr (rows @ [row]))"

definition POST_log_cancellation :: "string option \<Rightarrow> io \<Rightarrow> CancelRequest \<Rightarrow> db \<Rightarrow> Response \<times> db" where
  "POST_log_cancellation expectedSecret e req s =
     (if falsy expectedSecret \<or> strictNotEqual (x_admin_api_secret req) expectedSecret
      then (respond 401 [(''error'', JString ''Unauthorized. Invalid or missing API secret.'')], s)
      else (case cancel_json req of
              Inl msg \<Rightarrow>
                (respond 500 [(''error'', JString ''Internal Server Error''), (''details'', JString msg)], s)
            | Inr b \<Rightarrow>
                if falsy (lc_email b) \<or> falsy (lc_productId b) \<or> falsy (lc_stripeSessionId b)
                then (respond 400 [(''error'', JString
                        ''Missing required fields: email, productId, stripeSessionId'')], s)
                else (case getProductById (or_default (lc_productId b) []) of
                        None \<Rightarrow> (respond 400 [(''error'', JString ''Invalid Product ID'')], s)
                      | Some product \<Rightarrow>
                          (case insert_cancellation e
                                  (cancellation_row e (or_default (lc_email b) [])
                                     (or_default (lc_productId b) [])
                                     (or_default (lc_stripeSessionId b) []) product)
                                  (purchase_events s) of
                             Inl msg \<Rightarrow>
                               (respond 500 [(''error'', JString ''Internal Server Error''),
                                             (''details'', JString msg)], s)
                           | Inr rows \<Rightarrow>
                               (respond 200 [(''message'', JString
                                  ''Cancellation event logged successfully'')],
                                s\<lparr>purchase_events := rows\<rparr>)))))"

section \<open>Creating a checkout session (src/app/api/checkout_sessions/route.ts)\<close>

text \<open>
  \<^verbatim>\<open>encodeURIComponent\<close> on the bytes of a string: letters, digits and
  \<^verbatim>\<open>- _ . ! ~ * ' ( )\<close> stay, every other byte becomes \<^verbatim>\<open>%XX\<close>.
\<close>

definition hexDigit :: "nat \<Rightarrow> char" where
  "hexDigit n = (if n < 10 then char_of (48 + n) else char_of (55 + n))"

definition uriUnreserved :: "char \<Rightarrow> bool" where
  "uriUnreserved c =
     (let n = (of_char c :: nat)
      in (48 \<le> n \<and> n \<le> 57) \<or> (65 \<le> n \<and> n \<le> 90) \<or> (97 \<le> n \<and> n \<le> 122)
         \<or> List.member [45, 95, 46, 33, 126, 42, 39, 40, 41] n)"

definition encodeURIComponent :: "string \<Rightarrow> string" where
  "encodeURIComponent str =
     concat (map (\<lambda>c. if uriUnreserved c then [c]
                       else [CHR ''%'', hexDigit (of_char c div 16), hexDigit (of_char c mod 16)]) str)"

text \<open>
  The body of the request. The checkout page sends \<^verbatim>\<open>{ email, productId, sellerId }\<close>;
  the handler destructures \<^verbatim>\<open>{ email, productId }\<close> only.
\<close>

record CheckoutBody =
  co_email :: "string option"
  co_productId :: "string option"
  co_sellerId :: "string option"

text \<open>The argument of \<^verbatim>\<open>stripe.checkout.sessions.create\<close>.\<close>

record LineItem =
  li_currency :: string
  li_name :: string
  li_description :: string
  li_unit_amount :: int
  li_quantity :: int

record SessionCreateParams =
  payment_method_types :: "string list"
  line_items :: "LineItem list"
  mode :: string
  success_url :: string
  cancel_url :: string
  customer_email :: string
  metadata :: "(string \<times> string) list"

definition sessionCreateParams :: "string \<Rightarrow> string \<Rightarrow> string \<Rightarrow> Product \<Rightarrow> SessionCreateParams" where
  "sessionCreateParams appUrl em pid product =
     \<lparr>payment_method_types = [''card''],
      line_items =
        [\<lparr>li_currency = ''eur'',
          li_name = p_name product,
          li_description = ''Purchase of '' @ p_name product @ '' for ''
                           @ toString (p_points product) @ '' points'',
          li_unit_amount = p_price product * 100,
          li_quantity = 1\<rparr>],
      mode = ''payment'',
      success_url = appUrl @ ''/checkout?payment_success=true&session_id={CHECKOUT_SESSION_ID}&email=''
                    @ encodeURIComponent em @ ''&productId='' @ pid,
      cancel_url = appUrl @ ''/checkout?payment_cancelled=true&email='' @ encodeURIComponent em
                   @ ''&productId='' @ pid @ ''&session_id={CHECKOUT_SESSION_ID}'',
      customer_email = em,
      metadata = [(''email'', em), (''productId'', pid), (''points'', toString (p_points product))]\<rparr>"

text \<open>
  The handler. The call to the provider is a parameter: it gives the \<^verbatim>\<open>id\<close> of the
  session (which may be missing), or \<open>Inl\<close> the message of the error it throws.
  \<^verbatim>\<open>appUrlEnv\<close> is the environment variable \<^verbatim>\<open>NEXT_PUBLIC_APP_URL\<close>. The result is
  the answer and the request sent to the provider, if one was sent.
\<close>

definition POST_checkout_sessions ::
  "(SessionCreateParams \<Rightarrow> string + string option) \<Rightarrow> string option \<Rightarrow> string + CheckoutBody
     \<Rightarrow> Response \<times> SessionCreateParams option" where
  "POST_checkout_sessions create appUrlEnv json_body =
     (case json_body of
        Inl msg \<Rightarrow> (respond 500 [(''error'', JString (or_default (Some msg) ''Internal Server Error''))], None)
      | Inr b \<Rightarrow>
          if falsy (co_email b) \<or> falsy (co_productId b)
          then (respond 400 [(''error'', JString ''Email and Product ID are required'')], None)
          else (case getProductById (or_default (co_productId b) []) of
                  None \<Rightarrow> (respond 404 [(''error'', JString ''Invalid Product ID'')], None)
                | Some product \<Rightarrow>
                    (let params = sessionCreateParams (or_default appUrlEnv ''http://localhost:3000'')
                                    (or_default (co_email b) []) (or_default (co_productId b) []) product
                     in (case create params of
                           Inl msg \<Rightarrow>
                             (respond 500 [(''error'', JString (or_default (Some msg) ''Internal Server Error''))],
                              Some params)
                         | Inr session_id \<Rightarrow>
                             if falsy session_id
                             then (respond 500 [(''error'', JString ''Failed to create Stripe session.'')],
                                   Some params)
                             else (respond 200 [(''sessionId'', JString (or_default session_id []))],
                                   Some params)))))"

text \<open>
  The provider reports the metadata of the request unchanged in the session of
  \<^verbatim>\<open>checkout.session.completed\<close>.
\<close>

definition session_with_metadata :: "CheckoutSession \<Rightarrow> SessionCreateParams \<Rightarrow> CheckoutSession" where
  "session_with_metadata session params = session\<lparr>cs_metadata := Some (metadata params)\<rparr>"

section \<open>The operations that write the tables\<close>

text \<open>
  The deployment: the verifier of the provider's library and the two secrets of the
  environment. The other routes of the repository only read the tables.
\<close>

record Config =
  constructEvent :: Verifier
  webhookSecret :: "string option"
  adminApiSecret :: "string option"

datatype Operation = StripeWebhook io WebhookRequest | LogCancellation io CancelRequest

fun run :: "Config \<Rightarrow> Operation \<Rightarrow> db \<Rightarrow> db" where
  "run c (StripeWebhook e req) s = snd (POST (constructEvent c) (webhookSecret c) e req s)"
| "run c (LogCancellation e req) s = snd (POST_log_cancellation (adminApiSecret c) e req s)"

text \<open>The statuses the data model lists.\<close>

definition spec_statuses :: "string list" where
  "spec_statuses = [''INITIATED'', ''PAYMENT_SUCCESS'', ''PAYMENT_FAILED'', ''CANCELLED'',
                    ''ERROR_MISSING_METADATA'', ''ERROR_PRODUCT_NOT_FOUND'']"

section \<open>Concrete inputs\<close>

text \<open>
  A verifier for the examples: the signature of a body is the secret followed by the
  body, and a table gives the event a body parses to. It stands for the provider's
  library in the examples only; the theorems hold for every verifier.
\<close>

definition sample_verifier :: "(string \<times> StripeEvent) list \<Rightarrow> Verifier" where
  "sample_verifier tbl buf sig secret =
     (if sig = secret @ buf
      then (case map_of tbl buf of
              Some ev \<Rightarrow> Inr ev
            | None \<Rightarrow> Inl ''Unexpected end of JSON input'')
      else Inl ''No signatures found matching the expected signature for payload.'')"

definition session_alice :: CheckoutSession where
  "session_alice =
     \<lparr>cs_id = ''cs_1'',
      cs_metadata = Some [(''email'', ''alice@example.com''), (''productId'', ''prod_20euro''),
                          (''points'', ''10'')],
      cs_customer_details_email = Some ''alice@example.com'',
      cs_payment_intent = Some ''pi_1''\<rparr>"

definition session_bob :: CheckoutSession where
  "session_bob =
     \<lparr>cs_id = ''cs_2'',
      cs_metadata = Some [(''email'', ''bob@example.com''), (''productId'', ''prod_35euro''),
                          (''points'', ''20'')],
      cs_customer_details_email = Some ''bob@example.com'',
      cs_payment_intent = Some ''pi_2''\<rparr>"

definition session_no_product :: CheckoutSession where
  "session_no_product =
     \<lparr>cs_id = ''cs_3'',
      cs_metadata = Some [(''email'', ''carol@example.com'')],
      cs_customer_details_email = Some ''carol@example.com'',
      cs_payment_intent = Some ''pi_3''\<rparr>"

definition session_no_email :: CheckoutSession where
  "session_no_email =
     \<lparr>cs_id = ''cs_4'',
      cs_metadata = Some [(''productId'', ''prod_50euro'')],
      cs_customer_details_email = None,
      cs_payment_intent = Some ''pi_4''\<rparr>"

definition session_fallback :: CheckoutSession where
  "session_fallback =
     \<lparr>cs_id = ''cs_5'',
      cs_metadata = Some [(''productId'', ''prod_20euro'')],
      cs_customer_details_email = Some ''dave@example.com'',
      cs_payment_intent = Some ''pi_5''\<rparr>"

definition intent_declined :: PaymentIntent where
  "intent_declined =
     \<lparr>pi_id = ''pi_9'', pi_receipt_email = None, pi_customer = None,
      pi_last_payment_error_message = Some ''Your card was declined.'',
      pi_latest_charge_id = Some ''ch_1'', pi_status = ''requires_payment_method'',
      pi_amount = 2000, pi_currency = ''eur''\<rparr>"

definition intent_insufficient :: PaymentIntent where
  "intent_insufficient =
     intent_declined\<lparr>pi_last_payment_error_message := Some ''Your card has insufficient funds.'',
                     pi_latest_charge_id := Some ''ch_2''\<rparr>"

definition sample_events :: "(string \<times> StripeEvent) list" where
  "sample_events =
     [(''evt_alice'', CheckoutSessionCompleted session_alice),
      (''evt_bob'', CheckoutSessionCompleted session_bob),
      (''evt_no_product'', CheckoutSessionCompleted session_no_product),
      (''evt_no_email'', CheckoutSessionCompleted session_no_email),
      (''evt_declined'', PaymentIntentPaymentFailed intent_declined),
      (''evt_insufficient'', PaymentIntentPaymentFailed intent_insufficient),
      (''evt_other'', OtherEvent ''charge.refunded'')]"

definition signed :: "string \<Rightarrow> WebhookRequest" where
  "signed buf = \<lparr>raw_body = buf, stripe_signature = Some (''whsec_test'' @ buf)\<rparr>"

definition io_ok :: "nat \<Rightarrow> io" where
  "io_ok n = \<lparr>now = 1000 + n, nextval = n, ledger_fault = None, balance_fault = None\<rparr>"

definition io_ledger_down :: "nat \<Rightarrow> io" where
  "io_ledger_down n = (io_ok n)\<lparr>ledger_fault := Some ''Connection terminated unexpectedly''\<rparr>"

definition db_alice :: db where
  "db_alice = snd (POST (sample_verifier sample_events) (Some ''whsec_test'') (io_ok 1)
                     (signed ''evt_alice'') empty_db)"

definition db_two :: db where
  "db_two = deliver (sample_verifier sample_events) (Some ''whsec_test'')
              [(io_ok 1, signed ''evt_alice''), (io_ok 2, signed ''evt_bob'')] empty_db"

definition sample_config :: Config where
  "sample_config =
     \<lparr>constructEvent = sample_verifier sample_events, webhookSecret = Some ''whsec_test'',
      adminApiSecret = Some ''admin_secret''\<rparr>"

definition sample_cancellation :: CancelRequest where
  "sample_cancellation =
     \<lparr>x_admin_api_secret = Some ''admin_secret'',
      cancel_json = Inr \<lparr>lc_email = Some ''alice@example.com'', lc_productId = Some ''prod_20euro'',
                         lc_stripeSessionId = Some ''cs_7''\<rparr>\<rparr>"

definition sample_checkout_body :: CheckoutBody where
  "sample_checkout_body =
     \<lparr>co_email = Some ''alice@example.com'', co_productId = Some ''prod_20euro'',
      co_sellerId = Some ''7''\<rparr>"

definition sample_create :: "SessionCreateParams \<Rightarrow> string + string option" where
  "sample_create params = Inr (Some ''cs_1'')"

section \<open>Vocabulary of the properties\<close>

text \<open>
  A notification is verified when the header and the secret are present and the
  library accepts the signature of the raw body.
\<close>

definition verified :: "Verifier \<Rightarrow> string option \<Rightarrow> WebhookRequest \<Rightarrow> StripeEvent \<Rightarrow> bool" where
  "verified v sec req ev =
     (truthy (stripe_signature req) \<and> truthy sec
      \<and> v (raw_body req) (or_default (stripe_signature req) []) (or_default sec []) = Inr ev)"

definition client_error :: "Response \<Rightarrow> bool" where
  "client_error r = (400 \<le> http_status r \<and> http_status r < 500)"

definition server_error :: "Response \<Rightarrow> bool" where
  "server_error r = (500 \<le> http_status r \<and> http_status r < 600)"

text \<open>The UNIQUE constraint on \<^verbatim>\<open>stripe_session_id\<close>.\<close>

definition unique_sessions :: "db \<Rightarrow> bool" where
  "unique_sessions s = distinct (map pe_stripe_session_id (purchase_events s))"

text \<open>The primary key of \<^verbatim>\<open>user_points\<close>.\<close>

definition unique_customers :: "db \<Rightarrow> bool" where
  "unique_customers s = distinct (map up_email (user_points s))"

text \<open>
  The statement of \<^verbatim>\<open>recordPurchaseEvent\<close> is accepted when \<^verbatim>\<open>sql\<close> does not throw:
  no fault from outside, an integer \<^verbatim>\<open>seller_id\<close>, both integers within 32 bits.
\<close>

definition statement_accepted :: "io \<Rightarrow> PurchaseEventData \<Rightarrow> bool" where
  "statement_accepted e d =
     (ledger_fault e = None
      \<and> (case seller_id d of
           Some (Num n) \<Rightarrow> \<not> out_of_int4 n \<and> \<not> points_out_of_range (pointsAwarded d)
         | Some NaN \<Rightarrow> False
         | None \<Rightarrow> False))"

definition seller_value :: "PurchaseEventData \<Rightarrow> int" where
  "seller_value d = (case seller_id d of Some (Num n) \<Rightarrow> n | Some NaN \<Rightarrow> 0 | None \<Rightarrow> 0)"

text \<open>A row carries the five columns of the SET list as the statement supplies them.\<close>

definition overwritten :: "PurchaseEventData \<Rightarrow> purchase_events_row \<Rightarrow> bool" where
  "overwritten d r =
     (pe_status r = status d \<and> pe_details r = details d \<and> pe_product_id r = productId d
      \<and> pe_seller_id r = seller_value d \<and> pe_points_awarded r = pointsAwarded d)"

text \<open>The statuses of the data model together with the one the cancellation route writes.\<close>

definition written_statuses :: "string list" where
  "written_statuses = spec_statuses @ [''cancelled_by_user'']"

section \<open>Facts about the helpers\<close>

lemma falsy_truthy: "falsy v = (\<not> truthy v)"
  by (cases v) (simp_all add: falsy_def truthy_def)

lemma falsy_js_or: "falsy (js_or a b) = (falsy a \<and> falsy b)"
  by (simp add: js_or_def falsy_truthy)

lemma POST_verified: "verified v sec req ev \<Longrightarrow> POST v sec e req s = handleEvent e ev s"
  by (simp add: POST_def verified_def falsy_truthy)

lemma recordPurchaseEvent_user_points [simp]:
  "user_points (recordPurchaseEvent e d s) = user_points s"
  by (simp add: recordPurchaseEvent_def split: sum.splits)

lemma updateUserPoints_purchase_events [simp]:
  "purchase_events (updateUserPoints e em p k s) = purchase_events s"
  by (simp add: updateUserPoints_def split: sum.splits)

lemma recordPurchaseEvent_fault:
  "ledger_fault e = Some m \<Longrightarrow> recordPurchaseEvent e d s = s"
  by (simp add: recordPurchaseEvent_def upsert_purchase_event_def)

text \<open>
  The data of a failed payment has no \<^verbatim>\<open>seller_id\<close>, so its statement is refused by
  the NOT NULL constraint whatever the table holds, and the \<^verbatim>\<open>catch\<close> hides it.
\<close>

lemma paymentFailed_write_rejected: "recordPurchaseEvent e (paymentFailedData pi) s = s"
  by (simp add: recordPurchaseEvent_def upsert_purchase_event_def paymentFailedData_def
      split: option.splits)

lemma handleEvent_status: "http_status (fst (handleEvent e ev s)) = 200"
  by (cases ev)
     (simp_all add: checkoutSessionCompleted_def paymentIntentPaymentFailed_def respond_def Let_def
        split: option.splits)

lemma handleEvent_ledger_fault:
  "ledger_fault e = Some m \<Longrightarrow> purchase_events (snd (handleEvent e ev s)) = purchase_events s"
  by (cases ev)
     (simp_all add: checkoutSessionCompleted_def paymentIntentPaymentFailed_def
        recordPurchaseEvent_fault Let_def split: option.splits)

lemma upsert_rejected:
  "\<not> statement_accepted e d \<Longrightarrow> recordPurchaseEvent e d s = s"
  by (auto simp add: recordPurchaseEvent_def upsert_purchase_event_def statement_accepted_def
      split: option.splits js_number.splits sum.splits if_splits)

lemma upsert_accepted:
  "statement_accepted e d \<Longrightarrow>
   purchase_events (recordPurchaseEvent e d s) =
     (if list_ex (\<lambda>r. pe_stripe_session_id r = stripeSessionId d) (purchase_events s)
      then on_conflict_update d (seller_value d) (purchase_events s)
      else purchase_events s @ [inserted_row e d (seller_value d)])"
  by (auto simp add: recordPurchaseEvent_def upsert_purchase_event_def statement_accepted_def
        seller_value_def
      split: option.splits js_number.splits sum.splits if_splits)

lemma excluded_update_frame [simp]:
  "pe_id (excluded_update d n r) = pe_id r"
  "pe_email (excluded_update d n r) = pe_email r"
  "pe_timestamp (excluded_update d n r) = pe_timestamp r"
  "pe_stripe_session_id (excluded_update d n r) = pe_stripe_session_id r"
  by (simp_all add: excluded_update_def)

lemma excluded_update_overwritten [simp]: "overwritten d (excluded_update d (seller_value d) r)"
  by (simp add: excluded_update_def overwritten_def)

lemma on_conflict_update_frame [simp]:
  "length (on_conflict_update d n rows) = length rows"
  "map pe_id (on_conflict_update d n rows) = map pe_id rows"
  "map pe_email (on_conflict_update d n rows) = map pe_email rows"
  "map pe_timestamp (on_conflict_update d n rows) = map pe_timestamp rows"
  "map pe_stripe_session_id (on_conflict_update d n rows) = map pe_stripe_session_id rows"
  by (induction rows) (simp_all add: on_conflict_update_def)

lemma on_conflict_update_others:
  "filter (\<lambda>r. pe_stripe_session_id r \<noteq> stripeSessionId d) (on_conflict_update d n rows)
     = filter (\<lambda>r. pe_stripe_session_id r \<noteq> stripeSessionId d) rows"
  by (induction rows) (simp_all add: on_conflict_update_def)

lemma on_conflict_update_overwritten:
  "list_all (overwritten d)
     (filter (\<lambda>r. pe_stripe_session_id r = stripeSessionId d)
        (on_conflict_update d (seller_value d) rows))"
  by (induction rows) (simp_all add: on_conflict_update_def)

lemma on_conflict_update_list_ex [simp]:
  "list_ex (\<lambda>r. pe_stripe_session_id r = k) (on_conflict_update d n rows)
     = list_ex (\<lambda>r. pe_stripe_session_id r = k) rows"
  by (induction rows) (simp_all add: on_conflict_update_def)

lemma one_row_per_key:
  "distinct (map pe_stripe_session_id rows) \<Longrightarrow> k \<in> pe_stripe_session_id ` set rows \<Longrightarrow>
   length (filter (\<lambda>r. pe_stripe_session_id r = k) rows) = 1"
proof (induction rows)
  case Nil
  then show ?case by simp
next
  case (Cons r rows)
  show ?case
  proof (cases "pe_stripe_session_id r = k")
    case True
    with Cons.prems have "k \<notin> pe_stripe_session_id ` set rows" by auto
    then have "filter (\<lambda>r. pe_stripe_session_id r = k) rows = []"
      by (auto simp add: filter_empty_conv)
    with True show ?thesis by simp
  next
    case False
    with Cons show ?thesis by auto
  qed
qed

lemma rows_of_session_length:
  assumes "unique_sessions s"
    and "list_ex (\<lambda>r. pe_stripe_session_id r = k) (purchase_events s)"
  shows "length (rows_of_session s k) = 1"
proof -
  from assms(2) have "k \<in> pe_stripe_session_id ` set (purchase_events s)"
    by (auto simp add: list_ex_iff)
  with assms(1) show ?thesis
    by (simp add: rows_of_session_def unique_sessions_def one_row_per_key)
qed

lemma recordPurchaseEvent_written:
  assumes "statement_accepted e d"
  shows "rows_of_session (recordPurchaseEvent e d s) (stripeSessionId d) \<noteq> []
         \<and> list_all (overwritten d) (rows_of_session (recordPurchaseEvent e d s) (stripeSessionId d))"
proof (cases "list_ex (\<lambda>r. pe_stripe_session_id r = stripeSessionId d) (purchase_events s)")
  case True
  then have "list_ex (\<lambda>r. pe_stripe_session_id r = stripeSessionId d)
               (on_conflict_update d (seller_value d) (purchase_events s))"
    by simp
  then have "filter (\<lambda>r. pe_stripe_session_id r = stripeSessionId d)
               (on_conflict_update d (seller_value d) (purchase_events s)) \<noteq> []"
    by (simp add: list_ex_iff filter_empty_conv)
  with True assms show ?thesis
    by (simp add: rows_of_session_def upsert_accepted on_conflict_update_overwritten)
next
  case False
  then have "filter (\<lambda>r. pe_stripe_session_id r = stripeSessionId d) (purchase_events s) = []"
    by (simp add: list_ex_iff filter_empty_conv)
  with False assms show ?thesis
    by (simp add: rows_of_session_def upsert_accepted inserted_row_def overwritten_def)
qed

lemma checkout_missing_branch:
  "falsy (js_or (metadata_get session ''email'') (cs_customer_details_email session))
     \<or> falsy (metadata_get session ''productId'') \<Longrightarrow>
   checkoutSessionCompleted e session s =
     (respond 200 [(''received'', JBool True),
                   (''error'', JString ''Email or productId missing in session data'')],
      recordPurchaseEvent e (missingMetadataData session) s)"
  by (simp add: checkoutSessionCompleted_def Let_def)

lemma recordPurchaseEvent_rows:
  "list_all (\<lambda>r. r \<in> set (purchase_events s) \<or> pe_status r = status d)
     (purchase_events (recordPurchaseEvent e d s))"
proof (cases "statement_accepted e d")
  case False
  then show ?thesis by (simp add: upsert_rejected list_all_iff)
next
  case True
  then show ?thesis
    by (auto simp add: upsert_accepted list_all_iff on_conflict_update_def
        excluded_update_def inserted_row_def)
qed

lemma status_weaken:
  "status d \<in> set written_statuses \<Longrightarrow>
   list_all (\<lambda>r. r \<in> set (purchase_events s) \<or> pe_status r \<in> set written_statuses)
     (purchase_events (recordPurchaseEvent e d s))"
  using recordPurchaseEvent_rows [of s d e] by (auto simp add: list_all_iff)

lemma data_statuses:
  "status (missingMetadataData session) \<in> set written_statuses"
  "status (productNotFoundData session em pid) \<in> set written_statuses"
  "status (paymentSuccessData session em pid product) \<in> set written_statuses"
  "status (paymentFailedData pi) \<in> set written_statuses"
  by (simp_all add: written_statuses_def spec_statuses_def missingMetadataData_def
      productNotFoundData_def paymentSuccessData_def paymentFailedData_def)

lemma old_rows: "list_all (\<lambda>r. r \<in> set (purchase_events s) \<or> P r) (purchase_events s)"
  by (simp add: list_all_iff)

lemma handleEvent_statuses:
  "list_all (\<lambda>r. r \<in> set (purchase_events s) \<or> pe_status r \<in> set written_statuses)
     (purchase_events (snd (handleEvent e ev s)))"
  by (cases ev)
     (simp_all add: checkoutSessionCompleted_def paymentIntentPaymentFailed_def Let_def
        status_weaken data_statuses old_rows split: option.splits)

lemma POST_statuses:
  "list_all (\<lambda>r. r \<in> set (purchase_events s) \<or> pe_status r \<in> set written_statuses)
     (purchase_events (snd (POST v sec e req s)))"
  by (simp add: POST_def handleEvent_statuses old_rows split: sum.splits)

lemma cancellation_statuses:
  "list_all (\<lambda>r. r \<in> set (purchase_events s) \<or> pe_status r \<in> set written_statuses)
     (purchase_events (snd (POST_log_cancellation sec e req s)))"
  by (auto simp add: POST_log_cancellation_def insert_cancellation_def cancellation_row_def
        written_statuses_def spec_statuses_def list_all_iff
      split: sum.splits option.splits if_splits)

text \<open>
  The balance: one call of \<^verbatim>\<open>updateUserPoints\<close> that the store accepts adds the
  points, and the handler makes the call at every delivery of a completed checkout of
  a product of the catalogue, whatever row the session has.
\<close>

lemma find_none_total:
  "find (\<lambda>r. up_email r = em) rows = None \<Longrightarrow> filter (\<lambda>r. up_email r = em) rows = []"
  by (induction rows) (auto split: if_splits)

lemma find_some_total:
  "distinct (map up_email rows) \<Longrightarrow> find (\<lambda>r. up_email r = em) rows = Some old \<Longrightarrow>
   sum_list (map up_total_points (filter (\<lambda>r. up_email r = em) rows)) = up_total_points old"
proof (induction rows)
  case Nil
  then show ?case by simp
next
  case (Cons r rows)
  show ?case
  proof (cases "up_email r = em")
    case True
    with Cons.prems have notin: "em \<notin> up_email ` set rows" and eq: "old = r" by auto
    from notin have "filter (\<lambda>r. up_email r = em) rows = []"
      by (auto simp add: filter_empty_conv)
    with True eq show ?thesis by simp
  next
    case False
    with Cons show ?thesis by simp
  qed
qed

lemma add_points_absent:
  "em \<notin> up_email ` set rows \<Longrightarrow> filter (\<lambda>r. up_email r = em) (add_points em p t rows) = []"
  by (induction rows) (auto simp add: add_points_def)

lemma add_points_total:
  "distinct (map up_email rows) \<Longrightarrow> find (\<lambda>r. up_email r = em) rows = Some old \<Longrightarrow>
   sum_list (map up_total_points (filter (\<lambda>r. up_email r = em) (add_points em p t rows)))
   = up_total_points old + p"
proof (induction rows)
  case Nil
  then show ?case by simp
next
  case (Cons r rows)
  show ?case
  proof (cases "up_email r = em")
    case True
    with Cons.prems have notin: "em \<notin> up_email ` set rows" and eq: "old = r" by auto
    from notin have "filter (\<lambda>r. up_email r = em) (add_points em p t rows) = []"
      by (rule add_points_absent)
    with True eq show ?thesis by (simp add: add_points_def)
  next
    case False
    with Cons show ?thesis by (simp add: add_points_def)
  qed
qed

lemma updateUserPoints_adds:
  assumes up: "balance_fault e = None" and uniq: "unique_customers s"
    and small: "\<not> out_of_int4 p" and range: "\<not> out_of_int4 (totalPoints s em + p)"
  shows "totalPoints (updateUserPoints e em p k s) em = totalPoints s em + p"
proof (cases "find (\<lambda>r. up_email r = em) (user_points s)")
  case None
  then have "filter (\<lambda>r. up_email r = em) (user_points s) = []"
    by (rule find_none_total)
  with None up small show ?thesis
    by (simp add: updateUserPoints_def upsert_user_points_def totalPoints_def)
next
  case (Some old)
  from uniq Some have t: "totalPoints s em = up_total_points old"
    by (simp add: totalPoints_def unique_customers_def find_some_total)
  from uniq Some have t': "sum_list (map up_total_points (filter (\<lambda>r. up_email r = em)
                              (add_points em p (now e) (user_points s)))) = up_total_points old + p"
    by (simp add: unique_customers_def add_points_total)
  from range t have r: "\<not> out_of_int4 (up_total_points old + p)" by simp
  have "user_points (updateUserPoints e em p k s) = add_points em p (now e) (user_points s)"
    using Some up small r by (simp add: updateUserPoints_def upsert_user_points_def)
  with t t' show ?thesis by (simp add: totalPoints_def)
qed

lemma recordPurchaseEvent_totalPoints:
  "totalPoints (recordPurchaseEvent e d s) em = totalPoints s em"
  by (simp add: totalPoints_def)

lemma recordPurchaseEvent_unique_customers:
  "unique_customers (recordPurchaseEvent e d s) = unique_customers s"
  by (simp add: unique_customers_def)

lemma catalogue_points_small: "getProductById pid = Some product \<Longrightarrow> \<not> out_of_int4 (p_points product)"
  by (auto simp add: getProductById_def products_def out_of_int4_def split: if_splits)

lemma checkout_success_branch:
  assumes "js_or (metadata_get session ''email'') (cs_customer_details_email session) = Some em"
    and "em \<noteq> []"
    and "metadata_get session ''productId'' = Some pid" and "pid \<noteq> []"
    and "getProductById pid = Some product" and "0 < p_points product"
  shows "snd (checkoutSessionCompleted e session s) =
          updateUserPoints e em (p_points product) (cs_id session)
            (recordPurchaseEvent e (paymentSuccessData session em pid product) s)"
  using assms by (simp add: checkoutSessionCompleted_def Let_def falsy_def or_default_def)

lemma every_delivery_adds_points:
  assumes v: "verified v sec req (CheckoutSessionCompleted session)"
    and em: "js_or (metadata_get session ''email'') (cs_customer_details_email session) = Some em"
            "em \<noteq> []"
    and pid: "metadata_get session ''productId'' = Some pid" "pid \<noteq> []"
    and product: "getProductById pid = Some product"
    and store: "balance_fault e = None" "unique_customers s"
    and range: "\<not> out_of_int4 (totalPoints s em + p_points product)"
  shows "totalPoints (snd (POST v sec e req s)) em = totalPoints s em + p_points product"
proof -
  from product have pos: "0 < p_points product"
    by (auto simp add: getProductById_def products_def split: if_splits)
  have small: "\<not> out_of_int4 (p_points product)"
    using product by (rule catalogue_points_small)
  have "snd (POST v sec e req s) =
          updateUserPoints e em (p_points product) (cs_id session)
            (recordPurchaseEvent e (paymentSuccessData session em pid product) s)"
    using v em pid product pos by (simp add: POST_verified checkout_success_branch)
  then show ?thesis
    using store range small
    by (simp add: updateUserPoints_adds recordPurchaseEvent_totalPoints
        recordPurchaseEvent_unique_customers)
qed

section \<open>The properties\<close>

subsection \<open>Duplicate deliveries\<close>

text \<open>
  C1. The claim: delivering the same completed-checkout notification N times adds one
  product's points to the customer's balance in total and leaves one row for the
  session. The handler calls \<^verbatim>\<open>updateUserPoints\<close> on every delivery, with no look at
  the row the upsert found. At two deliveries of one notification for the product
  \<^verbatim>\<open>prod_20euro\<close> (10 points), on an empty database with the store available, the
  session has its one row and the balance is 20.
\<close>

theorem duplicate_delivery_awards_points_twice:
  "map_option p_points (getProductById ''prod_20euro'') = Some 10
   \<and> totalPoints (deliver (sample_verifier sample_events) (Some ''whsec_test'')
        [(io_ok 1, signed ''evt_alice''), (io_ok 2, signed ''evt_alice'')] empty_db)
        ''alice@example.com'' = 20
   \<and> length (rows_of_session (deliver (sample_verifier sample_events) (Some ''whsec_test'')
        [(io_ok 1, signed ''evt_alice''), (io_ok 2, signed ''evt_alice'')] empty_db) ''cs_1'') = 1"
  by code_simp

text \<open>
  C2. The claim: after any sequence of verified notifications every customer's
  \<^verbatim>\<open>total_points\<close> is the sum of \<^verbatim>\<open>points_awarded\<close> over the customer's rows with
  status PAYMENT_SUCCESS. With two customers interleaved and one notification
  delivered twice, the customer of the duplicate has 20 points against rows worth 10;
  the other customer's balance agrees with the rows.
\<close>

theorem balance_exceeds_success_rows:
  "totalPoints (deliver (sample_verifier sample_events) (Some ''whsec_test'')
      [(io_ok 1, signed ''evt_alice''), (io_ok 2, signed ''evt_bob''), (io_ok 3, signed ''evt_alice'')]
      empty_db) ''alice@example.com'' = 20
   \<and> successPoints (deliver (sample_verifier sample_events) (Some ''whsec_test'')
      [(io_ok 1, signed ''evt_alice''), (io_ok 2, signed ''evt_bob''), (io_ok 3, signed ''evt_alice'')]
      empty_db) ''alice@example.com'' = 10
   \<and> totalPoints (deliver (sample_verifier sample_events) (Some ''whsec_test'')
      [(io_ok 1, signed ''evt_alice''), (io_ok 2, signed ''evt_bob''), (io_ok 3, signed ''evt_alice'')]
      empty_db) ''bob@example.com'' = 20
   \<and> successPoints (deliver (sample_verifier sample_events) (Some ''whsec_test'')
      [(io_ok 1, signed ''evt_alice''), (io_ok 2, signed ''evt_bob''), (io_ok 3, signed ''evt_alice'')]
      empty_db) ''bob@example.com'' = 20"
  by code_simp

subsection \<open>A ledger write that fails\<close>

text \<open>
  C3. The claim: when the ledger write of a verified notification fails, the caller
  gets a retryable answer outside 2xx. \<^verbatim>\<open>recordPurchaseEvent\<close> catches the error of
  \<^verbatim>\<open>sql\<close> and returns, so the handler goes on. With the store down for the ledger
  write, a verified completed checkout is answered 200, no row is written, and the
  balance is raised all the same.
\<close>

theorem ledger_failure_not_surfaced:
  "ledger_fault (io_ledger_down 1) = Some ''Connection terminated unexpectedly''
   \<and> verified (sample_verifier sample_events) (Some ''whsec_test'') (signed ''evt_alice'')
       (CheckoutSessionCompleted session_alice)
   \<and> POST (sample_verifier sample_events) (Some ''whsec_test'') (io_ledger_down 1)
        (signed ''evt_alice'') empty_db
     = (\<lparr>http_status = 200, body = JObject [(''received'', JBool True)]\<rparr>,
        \<lparr>purchase_events = [],
         user_points = [\<lparr>up_email = ''alice@example.com'', up_total_points = 10,
                         up_last_updated = 1001\<rparr>]\<rparr>)"
  by code_simp

text \<open>
  C3, as the code has it: every verified notification is answered 200, whatever the
  store does; a ledger write that fails leaves the table of events as it was.
\<close>

theorem ledger_failure_is_acknowledged:
  assumes "verified v sec req ev"
  shows "http_status (fst (POST v sec e req s)) = 200
         \<and> (ledger_fault e \<noteq> None \<longrightarrow>
              purchase_events (snd (POST v sec e req s)) = purchase_events s)"
  using assms by (auto simp add: POST_verified handleEvent_status handleEvent_ledger_fault)

theorem ledger_failure_is_acknowledged_witness:
  "verified (sample_verifier sample_events) (Some ''whsec_test'') (signed ''evt_bob'')
     (CheckoutSessionCompleted session_bob)
   \<and> ledger_fault (io_ledger_down 1) \<noteq> None
   \<and> http_status (fst (POST (sample_verifier sample_events) (Some ''whsec_test'') (io_ledger_down 1)
                          (signed ''evt_bob'') empty_db)) = 200
   \<and> purchase_events (snd (POST (sample_verifier sample_events) (Some ''whsec_test'') (io_ledger_down 1)
                          (signed ''evt_bob'') empty_db)) = purchase_events empty_db"
proof -
  have h: "verified (sample_verifier sample_events) (Some ''whsec_test'') (signed ''evt_bob'')
             (CheckoutSessionCompleted session_bob)"
    by code_simp
  have f: "ledger_fault (io_ledger_down 1) \<noteq> None"
    by (simp add: io_ledger_down_def)
  show ?thesis
    using h f ledger_failure_is_acknowledged [OF h, of "io_ledger_down 1" empty_db] by simp
qed

subsection \<open>Failed payments\<close>

text \<open>
  C4. The claim: two payment-failed notifications for one payment attempt with
  different reasons leave one row, with the details of the later one. The data of a
  failed payment has no \<^verbatim>\<open>seller_id\<close>; the statement writes NULL into a NOT NULL
  column and is refused, and the error is caught. After both notifications, with the
  store available, the attempt has no row.
\<close>

theorem failed_payments_leave_no_row:
  "pi_id intent_declined = pi_id intent_insufficient
   \<and> pi_last_payment_error_message intent_declined \<noteq> pi_last_payment_error_message intent_insufficient
   \<and> verified (sample_verifier sample_events) (Some ''whsec_test'') (signed ''evt_declined'')
       (PaymentIntentPaymentFailed intent_declined)
   \<and> verified (sample_verifier sample_events) (Some ''whsec_test'') (signed ''evt_insufficient'')
       (PaymentIntentPaymentFailed intent_insufficient)
   \<and> rows_of_session (deliver (sample_verifier sample_events) (Some ''whsec_test'')
        [(io_ok 1, signed ''evt_declined''), (io_ok 2, signed ''evt_insufficient'')] empty_db)
        (pi_id intent_declined) = []"
  by code_simp

text \<open>
  C10. The claim: a verified notification with no customer identifier is still
  recorded, under the address \<^verbatim>\<open>unknown@example.com\<close>, and for a failed payment the
  missing identifier never stops the ledger write. For a failed payment with no
  receipt address and no customer the handler does choose that address, but the
  statement is refused for its NULL \<^verbatim>\<open>seller_id\<close> and no row is written.
\<close>

theorem failed_payment_without_email_not_recorded:
  "emailForFailedPI intent_declined = ''unknown@example.com''
   \<and> verified (sample_verifier sample_events) (Some ''whsec_test'') (signed ''evt_declined'')
       (PaymentIntentPaymentFailed intent_declined)
   \<and> upsert_purchase_event (io_ok 1) (paymentFailedData intent_declined) []
       = Inl ''null value in column seller_id violates not-null constraint''
   \<and> POST (sample_verifier sample_events) (Some ''whsec_test'') (io_ok 1) (signed ''evt_declined'') empty_db
       = (\<lparr>http_status = 200, body = JObject [(''received'', JBool True)]\<rparr>, empty_db)"
  by code_simp

subsection \<open>Notifications that do not verify\<close>

text \<open>
  C5. The claim: a missing header or a signature that does not verify is answered
  4xx with nothing written, and an unset secret is answered 5xx. The header is
  tested before the secret: with the header missing and the secret unset the answer is
  400, not 5xx.
\<close>

theorem missing_header_without_secret_is_client_error:
  "falsy None
   \<and> POST (sample_verifier sample_events) None (io_ok 1)
        \<lparr>raw_body = ''evt_alice'', stripe_signature = None\<rparr> empty_db
     = (\<lparr>http_status = 400, body = JObject [(''error'', JString ''Missing stripe-signature header.'')]\<rparr>,
        empty_db)
   \<and> \<not> server_error (fst (POST (sample_verifier sample_events) None (io_ok 1)
        \<lparr>raw_body = ''evt_alice'', stripe_signature = None\<rparr> empty_db))"
  by code_simp

text \<open>
  C5, as the code has it: a notification without the signature header is answered
  4xx; one with the header is answered 5xx when the secret is unset or empty, and
  4xx when the secret is set and the library refuses the signature of the raw body
  (a changed body under an unchanged header is such a case). In all three cases the
  database is left as it was.
\<close>

theorem unverified_notification_rejected:
  "(falsy (stripe_signature req) \<longrightarrow>
      client_error (fst (POST v sec e req s)) \<and> snd (POST v sec e req s) = s)
   \<and> (truthy (stripe_signature req) \<and> falsy sec \<longrightarrow>
      server_error (fst (POST v sec e req s)) \<and> snd (POST v sec e req s) = s)
   \<and> (truthy (stripe_signature req) \<and> truthy sec
      \<and> isl (v (raw_body req) (or_default (stripe_signature req) []) (or_default sec [])) \<longrightarrow>
      client_error (fst (POST v sec e req s)) \<and> snd (POST v sec e req s) = s)"
  by (auto simp add: POST_def falsy_truthy client_error_def server_error_def respond_def
      split: sum.splits)

theorem unverified_notification_rejected_witness:
  "falsy (stripe_signature \<lparr>raw_body = ''evt_alice'', stripe_signature = None\<rparr>)
   \<and> client_error (fst (POST (sample_verifier sample_events) (Some ''whsec_test'') (io_ok 2)
        \<lparr>raw_body = ''evt_alice'', stripe_signature = None\<rparr> db_alice))
   \<and> snd (POST (sample_verifier sample_events) (Some ''whsec_test'') (io_ok 2)
        \<lparr>raw_body = ''evt_alice'', stripe_signature = None\<rparr> db_alice) = db_alice
   \<and> truthy (stripe_signature (signed ''evt_alice'')) \<and> falsy (Some [])
   \<and> server_error (fst (POST (sample_verifier sample_events) (Some []) (io_ok 2)
        (signed ''evt_alice'') db_alice))
   \<and> snd (POST (sample_verifier sample_events) (Some []) (io_ok 2) (signed ''evt_alice'') db_alice)
       = db_alice
   \<and> truthy (Some ''whsec_test'')
   \<and> isl (sample_verifier sample_events ''evt_bob''
            (or_default (stripe_signature ((signed ''evt_alice'')\<lparr>raw_body := ''evt_bob''\<rparr>)) [])
            (or_default (Some ''whsec_test'') []))
   \<and> client_error (fst (POST (sample_verifier sample_events) (Some ''whsec_test'') (io_ok 2)
        ((signed ''evt_alice'')\<lparr>raw_body := ''evt_bob''\<rparr>) db_alice))
   \<and> snd (POST (sample_verifier sample_events) (Some ''whsec_test'') (io_ok 2)
        ((signed ''evt_alice'')\<lparr>raw_body := ''evt_bob''\<rparr>) db_alice) = db_alice"
proof -
  have a: "falsy (stripe_signature \<lparr>raw_body = ''evt_alice'', stripe_signature = None\<rparr>)"
    by (simp add: falsy_def)
  have b: "truthy (stripe_signature (signed ''evt_alice''))" "falsy (Some [])"
    by (simp_all add: truthy_def falsy_def signed_def)
  have c: "truthy (stripe_signature ((signed ''evt_alice'')\<lparr>raw_body := ''evt_bob''\<rparr>))"
    "truthy (Some ''whsec_test'')"
    "isl (sample_verifier sample_events (raw_body ((signed ''evt_alice'')\<lparr>raw_body := ''evt_bob''\<rparr>))
            (or_default (stripe_signature ((signed ''evt_alice'')\<lparr>raw_body := ''evt_bob''\<rparr>)) [])
            (or_default (Some ''whsec_test'') []))"
    by (simp_all add: truthy_def signed_def sample_verifier_def or_default_def)
  show ?thesis
    using a b c
      unverified_notification_rejected [of "\<lparr>raw_body = ''evt_alice'', stripe_signature = None\<rparr>"
        "sample_verifier sample_events" "Some ''whsec_test''" "io_ok 2" db_alice]
      unverified_notification_rejected [of "signed ''evt_alice''"
        "sample_verifier sample_events" "Some []" "io_ok 2" db_alice]
      unverified_notification_rejected [of "(signed ''evt_alice'')\<lparr>raw_body := ''evt_bob''\<rparr>"
        "sample_verifier sample_events" "Some ''whsec_test''" "io_ok 2" db_alice]
    by simp
qed

subsection \<open>Missing metadata\<close>

text \<open>
  C6. The claim: a completed checkout whose metadata lacks the customer or the product
  identifier gets a row with status ERROR_MISSING_METADATA and no balance changes. The
  handler takes the customer from \<^verbatim>\<open>session.metadata?.email ||
  session.customer_details?.email\<close>: with no email in the metadata and one in the
  customer details, a checkout of a catalogue product is recorded as PAYMENT_SUCCESS
  and the points go to the address of the customer details.
\<close>

theorem customer_details_email_makes_success:
  "falsy (metadata_get session_fallback ''email'')
   \<and> verified (sample_verifier [(''evt_fallback'', CheckoutSessionCompleted session_fallback)])
       (Some ''whsec_test'') (signed ''evt_fallback'') (CheckoutSessionCompleted session_fallback)
   \<and> POST (sample_verifier [(''evt_fallback'', CheckoutSessionCompleted session_fallback)])
        (Some ''whsec_test'') (io_ok 1) (signed ''evt_fallback'') empty_db
     = (\<lparr>http_status = 200, body = JObject [(''received'', JBool True)]\<rparr>,
        \<lparr>purchase_events =
           [\<lparr>pe_id = 1, pe_timestamp = 1001, pe_email = ''dave@example.com'',
             pe_product_id = Some ''prod_20euro'', pe_stripe_session_id = ''cs_5'',
             pe_status = ''PAYMENT_SUCCESS'', pe_seller_id = 0, pe_points_awarded = Some 10,
             pe_details = Some (JObject [(''product_name'', JString ''Product 20 Euro''),
                                         (''price_paid'', JNumber 20),
                                         (''payment_intent'', JString ''pi_5'')])\<rparr>],
         user_points = [\<lparr>up_email = ''dave@example.com'', up_total_points = 10,
                         up_last_updated = 1001\<rparr>]\<rparr>)"
  by code_simp

text \<open>
  C6, as the code has it: a verified completed checkout for which no customer can be
  resolved (no email in the metadata and none in the customer details) or whose
  metadata has no product identifier is answered 200 and changes no balance; when the
  store accepts the statement, the session has a row, and its status is
  ERROR_MISSING_METADATA.
\<close>

theorem unresolved_metadata_recorded_as_error:
  assumes v: "verified v sec req (CheckoutSessionCompleted session)"
    and missing: "(falsy (metadata_get session ''email'') \<and> falsy (cs_customer_details_email session))
                  \<or> falsy (metadata_get session ''productId'')"
  shows "http_status (fst (POST v sec e req s)) = 200
       \<and> user_points (snd (POST v sec e req s)) = user_points s
       \<and> (statement_accepted e (missingMetadataData session) \<longrightarrow>
            rows_of_session (snd (POST v sec e req s)) (cs_id session) \<noteq> []
            \<and> list_all (\<lambda>r. pe_status r = ''ERROR_MISSING_METADATA'')
                 (rows_of_session (snd (POST v sec e req s)) (cs_id session)))"
proof -
  let ?d = "missingMetadataData session"
  from missing have branch:
    "falsy (js_or (metadata_get session ''email'') (cs_customer_details_email session))
     \<or> falsy (metadata_get session ''productId'')"
    by (simp add: falsy_js_or)
  have post: "POST v sec e req s =
     (respond 200 [(''received'', JBool True),
                   (''error'', JString ''Email or productId missing in session data'')],
      recordPurchaseEvent e ?d s)"
    using v branch by (simp add: POST_verified checkout_missing_branch)
  have key: "stripeSessionId ?d = cs_id session" by (simp add: missingMetadataData_def)
  have ow: "overwritten ?d r \<Longrightarrow> pe_status r = ''ERROR_MISSING_METADATA''" for r
    by (simp add: overwritten_def missingMetadataData_def)
  have "statement_accepted e ?d \<Longrightarrow>
          rows_of_session (recordPurchaseEvent e ?d s) (cs_id session) \<noteq> []
          \<and> list_all (\<lambda>r. pe_status r = ''ERROR_MISSING_METADATA'')
               (rows_of_session (recordPurchaseEvent e ?d s) (cs_id session))"
    using recordPurchaseEvent_written [of e ?d s] ow by (auto simp add: key list_all_iff)
  then show ?thesis by (simp add: post respond_def)
qed

theorem unresolved_metadata_recorded_as_error_witness:
  "verified (sample_verifier sample_events) (Some ''whsec_test'') (signed ''evt_no_product'')
     (CheckoutSessionCompleted session_no_product)
   \<and> falsy (metadata_get session_no_product ''productId'')
   \<and> statement_accepted (io_ok 2) (missingMetadataData session_no_product)
   \<and> http_status (fst (POST (sample_verifier sample_events) (Some ''whsec_test'') (io_ok 2)
                          (signed ''evt_no_product'') db_alice)) = 200
   \<and> user_points (snd (POST (sample_verifier sample_events) (Some ''whsec_test'') (io_ok 2)
                          (signed ''evt_no_product'') db_alice)) = user_points db_alice
   \<and> rows_of_session (snd (POST (sample_verifier sample_events) (Some ''whsec_test'') (io_ok 2)
                          (signed ''evt_no_product'') db_alice)) (cs_id session_no_product) \<noteq> []
   \<and> list_all (\<lambda>r. pe_status r = ''ERROR_MISSING_METADATA'')
       (rows_of_session (snd (POST (sample_verifier sample_events) (Some ''whsec_test'') (io_ok 2)
                          (signed ''evt_no_product'') db_alice)) (cs_id session_no_product))
   \<and> verified (sample_verifier sample_events) (Some ''whsec_test'') (signed ''evt_no_email'')
       (CheckoutSessionCompleted session_no_email)
   \<and> falsy (metadata_get session_no_email ''email'')
   \<and> falsy (cs_customer_details_email session_no_email)
   \<and> statement_accepted (io_ok 3) (missingMetadataData session_no_email)
   \<and> http_status (fst (POST (sample_verifier sample_events) (Some ''whsec_test'') (io_ok 3)
                          (signed ''evt_no_email'') db_alice)) = 200
   \<and> user_points (snd (POST (sample_verifier sample_events) (Some ''whsec_test'') (io_ok 3)
                          (signed ''evt_no_email'') db_alice)) = user_points db_alice
   \<and> rows_of_session (snd (POST (sample_verifier sample_events) (Some ''whsec_test'') (io_ok 3)
                          (signed ''evt_no_email'') db_alice)) (cs_id session_no_email) \<noteq> []
   \<and> list_all (\<lambda>r. pe_status r = ''ERROR_MISSING_METADATA'')
       (rows_of_session (snd (POST (sample_verifier sample_events) (Some ''whsec_test'') (io_ok 3)
                          (signed ''evt_no_email'') db_alice)) (cs_id session_no_email))"
proof -
  have h1: "verified (sample_verifier sample_events) (Some ''whsec_test'') (signed ''evt_no_product'')
             (CheckoutSessionCompleted session_no_product)"
    by code_simp
  have m1: "falsy (metadata_get session_no_product ''productId'')"
    by code_simp
  have a1: "statement_accepted (io_ok 2) (missingMetadataData session_no_product)"
    by code_simp
  from m1 have m1': "(falsy (metadata_get session_no_product ''email'')
                      \<and> falsy (cs_customer_details_email session_no_product))
                     \<or> falsy (metadata_get session_no_product ''productId'')" ..
  have h2: "verified (sample_verifier sample_events) (Some ''whsec_test'') (signed ''evt_no_email'')
             (CheckoutSessionCompleted session_no_email)"
    by code_simp
  have m2: "falsy (metadata_get session_no_email ''email'')"
           "falsy (cs_customer_details_email session_no_email)"
    by code_simp+
  have a2: "statement_accepted (io_ok 3) (missingMetadataData session_no_email)"
    by code_simp
  from m2 have m2': "(falsy (metadata_get session_no_email ''email'')
                      \<and> falsy (cs_customer_details_email session_no_email))
                     \<or> falsy (metadata_get session_no_email ''productId'')" by simp
  show ?thesis
    using h1 m1 a1 h2 m2 a2
      unresolved_metadata_recorded_as_error [OF h1 m1', of "io_ok 2" db_alice]
      unresolved_metadata_recorded_as_error [OF h2 m2', of "io_ok 3" db_alice]
    by simp
qed

text \<open>
  The value of \<^verbatim>\<open>points_awarded\<close> in such a row: the branch gives
  \<^verbatim>\<open>recordPurchaseEvent\<close> no \<^verbatim>\<open>pointsAwarded\<close>, so the column is NULL, where the
  cancellation route writes 0 for its row.
\<close>

lemma missing_metadata_row_has_null_points:
  "falsy (js_or (metadata_get session_no_email ''email'') (cs_customer_details_email session_no_email))
   \<and> verified (sample_verifier sample_events) (Some ''whsec_test'') (signed ''evt_no_email'')
       (CheckoutSessionCompleted session_no_email)
   \<and> map (\<lambda>r. (pe_status r, pe_points_awarded r))
        (rows_of_session (snd (POST (sample_verifier sample_events) (Some ''whsec_test'') (io_ok 1)
                                 (signed ''evt_no_email'') empty_db)) ''cs_4'')
     = [(''ERROR_MISSING_METADATA'', None)]"
  by code_simp

subsection \<open>The frame of the upsert\<close>

text \<open>
  C7. When the session of the data already has its row (the table obeying its UNIQUE
  constraint), \<^verbatim>\<open>recordPurchaseEvent\<close> creates no row: the table keeps its length,
  and every row keeps its \<^verbatim>\<open>id\<close>, \<^verbatim>\<open>email\<close>, \<^verbatim>\<open>timestamp\<close> and
  \<^verbatim>\<open>stripe_session_id\<close>; the rows of other sessions and the balances are untouched;
  the session still has exactly one row; and when the store accepts the statement that
  row carries the new \<^verbatim>\<open>status\<close>, \<^verbatim>\<open>details\<close>, \<^verbatim>\<open>product_id\<close>, \<^verbatim>\<open>seller_id\<close> and
  \<^verbatim>\<open>points_awarded\<close>.
\<close>

theorem upsert_overwrites_mutable_fields_only:
  assumes present: "list_ex (\<lambda>r. pe_stripe_session_id r = stripeSessionId d) (purchase_events s)"
    and uniq: "unique_sessions s"
  shows "length (purchase_events (recordPurchaseEvent e d s)) = length (purchase_events s)
       \<and> map pe_id (purchase_events (recordPurchaseEvent e d s)) = map pe_id (purchase_events s)
       \<and> map pe_email (purchase_events (recordPurchaseEvent e d s)) = map pe_email (purchase_events s)
       \<and> map pe_timestamp (purchase_events (recordPurchaseEvent e d s)) = map pe_timestamp (purchase_events s)
       \<and> map pe_stripe_session_id (purchase_events (recordPurchaseEvent e d s))
           = map pe_stripe_session_id (purchase_events s)
       \<and> filter (\<lambda>r. pe_stripe_session_id r \<noteq> stripeSessionId d) (purchase_events (recordPurchaseEvent e d s))
           = filter (\<lambda>r. pe_stripe_session_id r \<noteq> stripeSessionId d) (purchase_events s)
       \<and> user_points (recordPurchaseEvent e d s) = user_points s
       \<and> length (rows_of_session (recordPurchaseEvent e d s) (stripeSessionId d)) = 1
       \<and> (statement_accepted e d \<longrightarrow>
            list_all (overwritten d) (rows_of_session (recordPurchaseEvent e d s) (stripeSessionId d)))"
proof (cases "statement_accepted e d")
  case False
  then have "recordPurchaseEvent e d s = s" by (rule upsert_rejected)
  with present uniq show ?thesis by (simp add: False rows_of_session_length)
next
  case True
  have rows: "purchase_events (recordPurchaseEvent e d s)
                = on_conflict_update d (seller_value d) (purchase_events s)"
    using True present by (simp add: upsert_accepted)
  have u': "unique_sessions (recordPurchaseEvent e d s)"
    using uniq by (simp add: unique_sessions_def rows)
  have ex': "list_ex (\<lambda>r. pe_stripe_session_id r = stripeSessionId d)
               (purchase_events (recordPurchaseEvent e d s))"
    using present by (simp add: rows)
  have one: "length (rows_of_session (recordPurchaseEvent e d s) (stripeSessionId d)) = 1"
    using u' ex' by (rule rows_of_session_length)
  have ow: "list_all (overwritten d) (rows_of_session (recordPurchaseEvent e d s) (stripeSessionId d))"
    by (simp add: rows_of_session_def rows on_conflict_update_overwritten)
  show ?thesis using one ow
    by (simp add: rows on_conflict_update_others)
qed

theorem upsert_overwrites_mutable_fields_only_witness:
  "list_ex (\<lambda>r. pe_stripe_session_id r = stripeSessionId (missingMetadataData session_alice))
     (purchase_events db_two)
   \<and> unique_sessions db_two
   \<and> statement_accepted (io_ok 3) (missingMetadataData session_alice)
   \<and> map pe_id (purchase_events (recordPurchaseEvent (io_ok 3) (missingMetadataData session_alice) db_two))
       = [1, 2]
   \<and> map pe_email (purchase_events (recordPurchaseEvent (io_ok 3) (missingMetadataData session_alice) db_two))
       = [''alice@example.com'', ''bob@example.com'']
   \<and> map pe_timestamp (purchase_events (recordPurchaseEvent (io_ok 3) (missingMetadataData session_alice) db_two))
       = [1001, 1002]
   \<and> map pe_status (purchase_events (recordPurchaseEvent (io_ok 3) (missingMetadataData session_alice) db_two))
       = [''ERROR_MISSING_METADATA'', ''PAYMENT_SUCCESS'']
   \<and> list_all (overwritten (missingMetadataData session_alice))
       (rows_of_session (recordPurchaseEvent (io_ok 3) (missingMetadataData session_alice) db_two)
          (stripeSessionId (missingMetadataData session_alice)))"
proof -
  have p: "list_ex (\<lambda>r. pe_stripe_session_id r = stripeSessionId (missingMetadataData session_alice))
             (purchase_events db_two)"
    by code_simp
  have u: "unique_sessions db_two"
    by code_simp
  have a: "statement_accepted (io_ok 3) (missingMetadataData session_alice)"
    by code_simp
  have ids: "map pe_id (purchase_events db_two) = [1, 2]"
    by code_simp
  have ems: "map pe_email (purchase_events db_two) = [''alice@example.com'', ''bob@example.com'']"
    by code_simp
  have ts: "map pe_timestamp (purchase_events db_two) = [1001, 1002]"
    by code_simp
  have st: "map pe_status (purchase_events (recordPurchaseEvent (io_ok 3)
              (missingMetadataData session_alice) db_two))
            = [''ERROR_MISSING_METADATA'', ''PAYMENT_SUCCESS'']"
    by code_simp
  show ?thesis
    using p u a st upsert_overwrites_mutable_fields_only [OF p u, of "io_ok 3"]
    by (simp add: ids ems ts)
qed

subsection \<open>The request to the provider\<close>

text \<open>
  Whatever the request, the metadata sent to the provider has the keys
  \<^verbatim>\<open>email\<close>, \<^verbatim>\<open>productId\<close> and \<^verbatim>\<open>points\<close>, and no other.
\<close>

lemma checkout_metadata_keys:
  "snd (POST_checkout_sessions create url b) = Some p \<Longrightarrow>
   map fst (metadata p) = [''email'', ''productId'', ''points'']"
  by (auto simp add: POST_checkout_sessions_def sessionCreateParams_def Let_def
      split: sum.splits option.splits if_splits)

text \<open>
  C8. The claim: the request to the provider carries the price, a description and a
  metadata bag with customer, product and seller identifier, so that the webhook can
  read all three back. For a body with \<^verbatim>\<open>sellerId\<close> 7 the request is accepted and
  carries price and description, but its metadata has no \<^verbatim>\<open>sellerId\<close>; the webhook
  then reads none from a session with that metadata and writes \<^verbatim>\<open>seller_id\<close> 0.
\<close>

theorem checkout_metadata_drops_sellerId:
  "co_sellerId sample_checkout_body = Some ''7''
   \<and> http_status (fst (POST_checkout_sessions sample_create None (Inr sample_checkout_body))) = 200
   \<and> (case snd (POST_checkout_sessions sample_create None (Inr sample_checkout_body)) of
        None \<Rightarrow> False
      | Some p \<Rightarrow>
          map (li_unit_amount) (line_items p) = [2000]
          \<and> map (li_description) (line_items p) = [''Purchase of Product 20 Euro for 10 points'']
          \<and> metadata p = [(''email'', ''alice@example.com''), (''productId'', ''prod_20euro''),
                          (''points'', ''10'')]
          \<and> metadata_get (session_with_metadata session_alice p) ''sellerId'' = None
          \<and> map pe_seller_id
               (purchase_events
                  (snd (POST (sample_verifier
                                [(''evt'', CheckoutSessionCompleted (session_with_metadata session_alice p))])
                          (Some ''whsec_test'') (io_ok 1) (signed ''evt'') empty_db))) = [0])"
  by code_simp

subsection \<open>The statuses that are written\<close>

text \<open>
  C9. The claim: every row written has a status among INITIATED, PAYMENT_SUCCESS,
  PAYMENT_FAILED, CANCELLED, ERROR_MISSING_METADATA and ERROR_PRODUCT_NOT_FOUND. The
  cancellation route writes the status \<^verbatim>\<open>cancelled_by_user\<close>.
\<close>

theorem cancellation_status_outside_vocabulary:
  "map pe_status (purchase_events (run sample_config (LogCancellation (io_ok 1) sample_cancellation) empty_db))
     = [''cancelled_by_user'']
   \<and> ''cancelled_by_user'' \<notin> set spec_statuses"
  by code_simp

text \<open>
  C9, as the code has it: after any operation that writes the table, every row is a
  row the table had before or has a status among the six of the data model and
  \<^verbatim>\<open>cancelled_by_user\<close>.
\<close>

theorem written_status_in_vocabulary:
  "list_all (\<lambda>r. r \<in> set (purchase_events s) \<or> pe_status r \<in> set written_statuses)
     (purchase_events (run c op s))"
  by (cases op) (simp_all add: POST_statuses cancellation_statuses)

theorem written_status_in_vocabulary_witness:
  "purchase_events (run sample_config (LogCancellation (io_ok 3) sample_cancellation) db_two)
     \<noteq> purchase_events db_two
   \<and> list_all (\<lambda>r. r \<in> set (purchase_events db_two) \<or> pe_status r \<in> set written_statuses)
       (purchase_events (run sample_config (LogCancellation (io_ok 3) sample_cancellation) db_two))"
proof -
  have "purchase_events (run sample_config (LogCancellation (io_ok 3) sample_cancellation) db_two)
          \<noteq> purchase_events db_two"
    by code_simp
  then show ?thesis
    using written_status_in_vocabulary [of db_two sample_config "LogCancellation (io_ok 3) sample_cancellation"]
    by simp
qed

end
